theory Spec2Isabelle
  imports Complex_Main
begin

section \<open>Values of the service\<close>

text \<open>
  The service (\<^verbatim>\<open>app.py\<close>; \<^verbatim>\<open>main.py\<close> has the same routes line for line and
  differs only below \<^verbatim>\<open>if __name__ == '__main__'\<close>) reads a JSON value from the
  request and answers with a JSON value and a status code.

  A Python value that comes out of the JSON parser or goes into \<^verbatim>\<open>jsonify\<close> is a
  \<open>json\<close>: \<^verbatim>\<open>None\<close>, a \<^verbatim>\<open>bool\<close>, an \<^verbatim>\<open>int\<close>, a finite \<^verbatim>\<open>float\<close>,
  a \<^verbatim>\<open>str\<close>, a \<^verbatim>\<open>list\<close> or a \<^verbatim>\<open>dict\<close> with string keys. A dict is an
  association list with one pair for each key, read by \<open>map_of\<close>. A float is taken at
  its exact value, a rational number; a string is a list of characters of the 8-bit range.
\<close>

datatype json =
    JNull
  | JBool bool
  | JInt int
  | JFloat rat
  | JStr string
  | JArr "json list"
  | JObj "(string \<times> json) list"

text \<open>
  \<open>TypeError\<close>, \<open>AttributeError\<close> and \<open>KeyError\<close> are the exceptions the interpreter
  raises inside the handlers; the first two carry their message, the third the missing
  key. \<open>RaisedError\<close> is any other exception that derives from \<^verbatim>\<open>Exception\<close> (of the
  classifier, of the framework), with the text \<^verbatim>\<open>str(e)\<close> returns. \<open>BaseRaised\<close> is
  an exception that derives from \<^verbatim>\<open>BaseException\<close> and not from \<^verbatim>\<open>Exception\<close>
  (\<^verbatim>\<open>SystemExit\<close>, \<^verbatim>\<open>KeyboardInterrupt\<close>, \<^verbatim>\<open>GeneratorExit\<close>), with its text.
\<close>

datatype exn =
    TypeError string
  | AttributeError string
  | KeyError string
  | RaisedError string
  | BaseRaised string

text \<open>\<^verbatim>\<open>isinstance(e, Exception)\<close>, the test of an \<^verbatim>\<open>except Exception\<close> clause.\<close>

fun isinstance_Exception :: "exn \<Rightarrow> bool" where
  "isinstance_Exception (BaseRaised _) = False"
| "isinstance_Exception _ = True"

text \<open>A string between single quotes, as Python's messages show type names.\<close>

definition quoted :: "string \<Rightarrow> string" where
  "quoted s = [CHR 0x27] @ s @ [CHR 0x27]"

text \<open>
  \<^verbatim>\<open>repr(s)\<close> of a string. The quotes are single, or double when the string holds a
  single quote and no double quote. The quote in use and the backslash are escaped with a
  backslash; tab, newline and carriage return are written \<^verbatim>\<open>\t\<close>, \<^verbatim>\<open>\n\<close>,
  \<^verbatim>\<open>\r\<close>; every other character that is not printable is written \<^verbatim>\<open>\xhh\<close> with
  two lower-case hexadecimal digits. Below code point 256 the printable characters are 32
  to 126 and 161 to 255 without 173.
\<close>

definition py_isprintable :: "char \<Rightarrow> bool" where
  "py_isprintable c = (let n = (of_char c :: nat) in
      (32 \<le> n \<and> n \<le> 126) \<or> (161 \<le> n \<and> n \<noteq> 173))"

definition hex_digit :: "nat \<Rightarrow> char" where
  "hex_digit d = ''0123456789abcdef'' ! (d mod 16)"

definition repr_char :: "char \<Rightarrow> char \<Rightarrow> string" where
  "repr_char q c =
     (if c = q \<or> c = CHR 0x5C then [CHR 0x5C, c]
      else if c = CHR 0x09 then [CHR 0x5C, CHR ''t'']
      else if c = CHR 0x0A then [CHR 0x5C, CHR ''n'']
      else if c = CHR 0x0D then [CHR 0x5C, CHR ''r'']
      else if py_isprintable c then [c]
      else [CHR 0x5C, CHR ''x'', hex_digit ((of_char c :: nat) div 16), hex_digit (of_char c :: nat)])"

definition py_repr :: "string \<Rightarrow> string" where
  "py_repr s =
     (let q = (if CHR 0x27 \<in> set s \<and> CHR 0x22 \<notin> set s then CHR 0x22 else CHR 0x27)
      in [q] @ concat (map (repr_char q) s) @ [q])"

text \<open>
  \<^verbatim>\<open>str(e)\<close>: the message, and for a \<^verbatim>\<open>KeyError\<close> the \<^verbatim>\<open>repr\<close> of the key.
\<close>

fun str_exn :: "exn \<Rightarrow> string" where
  "str_exn (TypeError m) = m"
| "str_exn (AttributeError m) = m"
| "str_exn (KeyError k) = py_repr k"
| "str_exn (RaisedError m) = m"
| "str_exn (BaseRaised m) = m"

subsection \<open>The Python operations the handlers apply to a parsed body\<close>

fun py_type_name :: "json \<Rightarrow> string" where
  "py_type_name JNull = ''NoneType''"
| "py_type_name (JBool _) = ''bool''"
| "py_type_name (JInt _) = ''int''"
| "py_type_name (JFloat _) = ''float''"
| "py_type_name (JStr _) = ''str''"
| "py_type_name (JArr _) = ''list''"
| "py_type_name (JObj _) = ''dict''"

text \<open>Truth value of a Python object, as \<^verbatim>\<open>not data\<close> tests it.\<close>

fun py_truthy :: "json \<Rightarrow> bool" where
  "py_truthy JNull = False"
| "py_truthy (JBool b) = b"
| "py_truthy (JInt i) = (i \<noteq> 0)"
| "py_truthy (JFloat q) = (q \<noteq> 0)"
| "py_truthy (JStr s) = (s \<noteq> [])"
| "py_truthy (JArr xs) = (xs \<noteq> [])"
| "py_truthy (JObj kvs) = (kvs \<noteq> [])"

text \<open>\<^verbatim>\<open>sub in s\<close> on two strings: \<open>sub\<close> occurs in \<open>s\<close> as a contiguous run.\<close>

fun str_contains :: "string \<Rightarrow> string \<Rightarrow> bool" where
  "str_contains [] sub = (sub = [])"
| "str_contains (c # cs) sub = (take (length sub) (c # cs) = sub \<or> str_contains cs sub)"

text \<open>
  \<^verbatim>\<open>key in data\<close> for a string \<open>key\<close>: membership among the keys of a dict, among the
  elements of a list, substring test on a string; the other types are no containers and
  the test raises \<^verbatim>\<open>TypeError\<close>. The messages of the interpreter's exceptions, here
  and below, are worded as CPython 3.11 to 3.13 words them.
\<close>

fun py_in :: "string \<Rightarrow> json \<Rightarrow> exn + bool" where
  "py_in k (JObj kvs) = Inr (k \<in> set (map fst kvs))"
| "py_in k (JArr xs) = Inr (JStr k \<in> set xs)"
| "py_in k (JStr s) = Inr (str_contains s k)"
| "py_in k v = Inl (TypeError (''argument of type '' @ quoted (py_type_name v) @ '' is not iterable''))"

text \<open>\<^verbatim>\<open>data[key]\<close> for a string \<open>key\<close>.\<close>

fun py_getitem :: "json \<Rightarrow> string \<Rightarrow> exn + json" where
  "py_getitem (JObj kvs) k = (case map_of kvs k of Some v \<Rightarrow> Inr v | None \<Rightarrow> Inl (KeyError k))"
| "py_getitem (JArr xs) k = Inl (TypeError ''list indices must be integers or slices, not str'')"
| "py_getitem (JStr s) k = Inl (TypeError (''string indices must be integers, not '' @ quoted ''str''))"
| "py_getitem v k = Inl (TypeError (quoted (py_type_name v) @ '' object is not subscriptable''))"

text \<open>
  \<^verbatim>\<open>str.strip()\<close> removes leading and trailing whitespace. The whitespace characters
  of Python below code point 256 are 9 to 13, 28 to 32, 133 and 160.
\<close>

definition py_isspace :: "char \<Rightarrow> bool" where
  "py_isspace c = (let n = (of_char c :: nat) in
      (9 \<le> n \<and> n \<le> 13) \<or> (28 \<le> n \<and> n \<le> 32) \<or> n = 133 \<or> n = 160)"

definition strip :: "string \<Rightarrow> string" where
  "strip s = rev (dropWhile py_isspace (rev (dropWhile py_isspace s)))"

text \<open>\<^verbatim>\<open>text.strip()\<close> on any value: only a \<^verbatim>\<open>str\<close> has the method.\<close>

fun py_strip :: "json \<Rightarrow> exn + string" where
  "py_strip (JStr s) = Inr (strip s)"
| "py_strip v = Inl (AttributeError (quoted (py_type_name v) @ '' object has no attribute '' @ quoted ''strip''))"

text \<open>
  \<^verbatim>\<open>round(x, n)\<close> on a float: the decimal with \<open>n\<close> digits after the point nearest to
  the exact value of \<open>x\<close>, a tie going to the even last digit. The result is that
  decimal, the number \<^verbatim>\<open>jsonify\<close> prints; its conversion back to the nearest binary
  float is not part of the model.
\<close>

definition round_half_even :: "rat \<Rightarrow> int" where
  "round_half_even y = (let f = \<lfloor>y\<rfloor>; d = y - of_int f in
      if d < 1 / 2 then f
      else if 1 / 2 < d then f + 1
      else if even f then f else f + 1)"

definition py_round :: "rat \<Rightarrow> nat \<Rightarrow> rat" where
  "py_round x n = of_int (round_half_even (x * 10 ^ n)) / 10 ^ n"

text \<open>A number written with at most \<open>n\<close> digits after the decimal point.\<close>

definition decimal_places :: "nat \<Rightarrow> rat \<Rightarrow> bool" where
  "decimal_places n q = (of_int \<lfloor>q * 10 ^ n\<rfloor> = q * 10 ^ n)"

section \<open>Request, response, classifier\<close>

text \<open>
  Of the Flask request the handlers use two things: what \<^verbatim>\<open>request.get_json()\<close>
  does (it returns the parsed body, \<^verbatim>\<open>None\<close> for the body \<^verbatim>\<open>null\<close>, or raises, as
  on a body that is not JSON) and the query parameters \<^verbatim>\<open>request.args\<close>, whose
  \<^verbatim>\<open>get\<close> returns the first value of a key or the default. The framework is not part
  of the service, so the outcome of \<^verbatim>\<open>get_json\<close> is a field of the request.
\<close>

record request =
  get_json :: "exn + json"
  args :: "(string \<times> string) list"

definition args_get :: "(string \<times> string) list \<Rightarrow> string \<Rightarrow> string \<Rightarrow> string" where
  "args_get a k dflt = (case map_of a k of Some v \<Rightarrow> v | None \<Rightarrow> dflt)"

text \<open>A view returns \<^verbatim>\<open>jsonify(body), status\<close>.\<close>

record response =
  body :: json
  status :: nat

definition jsonify :: "json \<Rightarrow> nat \<Rightarrow> response" where
  "jsonify b st = \<lparr>body = b, status = st\<rparr>"

text \<open>
  \<^verbatim>\<open>sentiment_analyzer\<close> is the pipeline created at import time with the model
  identifier below. Called on a value it returns a list of results, each with a label and
  a score, or raises. The handlers are parameterised by what it computes; each call is
  recorded in the list of arguments the pipeline has been called with, the state that
  every action threads.
\<close>

definition pipeline_model :: string where
  "pipeline_model = ''cardiffnlp/twitter-roberta-base-sentiment-latest''"

record result =
  label :: string
  score :: rat

type_synonym classifier = "json \<Rightarrow> exn + result list"

type_synonym 'a action = "json list \<Rightarrow> (exn + 'a) \<times> json list"

definition sentiment_analyzer :: "classifier \<Rightarrow> json \<Rightarrow> (result list) action" where
  "sentiment_analyzer clf text calls = (clf text, calls @ [text])"

section \<open>The routes\<close>

text \<open>
  The loop \<^verbatim>\<open>for result in results: response['sentiment_results'].append({...})\<close>,
  with the list built so far as accumulator, and the dict it appends.
\<close>

definition result_entry :: "result \<Rightarrow> json" where
  "result_entry r = JObj [(''label'', JStr (label r)), (''score'', JFloat (py_round (score r) 4))]"

fun append_results :: "json list \<Rightarrow> result list \<Rightarrow> json list" where
  "append_results acc [] = acc"
| "append_results acc (r # rs) = append_results (acc @ [result_entry r]) rs"

definition format_response :: "json \<Rightarrow> result list \<Rightarrow> json" where
  "format_response text results =
     JObj [(''input_text'', text),
           (''sentiment_results'', JArr (append_results [] results))]"

text \<open>The three fixed messages of the validation errors.\<close>

definition no_text_key :: string where
  "no_text_key = ''Please provide text in JSON format with \"text\" key''"

definition text_empty :: string where
  "text_empty = ''Text cannot be empty''"

definition no_text_parameter :: string where
  "no_text_parameter = ''Please provide text using the \"text\" query parameter''"

definition error_body :: "string \<Rightarrow> json" where
  "error_body m = JObj [(''error'', JStr m)]"

text \<open>
  The \<^verbatim>\<open>except Exception as e\<close> clause of both analyze routes, and the
  \<^verbatim>\<open>try\<close> statement around a block: the clause handles an exception of the block
  that derives from \<^verbatim>\<open>Exception\<close>; any other exception leaves the view as it is.
\<close>

definition except_handler :: "exn \<Rightarrow> response" where
  "except_handler e =
     jsonify (error_body (''An error occurred during sentiment analysis: '' @ str_exn e)) 500"

definition try_except :: "response action \<Rightarrow> response action" where
  "try_except block calls =
     (case block calls of
        (Inl e, calls') \<Rightarrow>
          if isinstance_Exception e then (Inr (except_handler e), calls') else (Inl e, calls')
      | (Inr r, calls') \<Rightarrow> (Inr r, calls'))"

text \<open>
  The part the two routes share, from \<^verbatim>\<open>results = sentiment_analyzer(text)\<close> to
  \<^verbatim>\<open>return jsonify(response), 200\<close>.
\<close>

definition analyze_text :: "classifier \<Rightarrow> json \<Rightarrow> response action" where
  "analyze_text clf text calls =
     (case sentiment_analyzer clf text calls of
        (Inl e, calls') \<Rightarrow> (Inl e, calls')
      | (Inr results, calls') \<Rightarrow> (Inr (jsonify (format_response text results) 200), calls'))"

text \<open>\<^verbatim>\<open>POST /analyze\<close>: the \<^verbatim>\<open>try\<close> block, then the whole view.\<close>

definition analyze_sentiment_block :: "classifier \<Rightarrow> request \<Rightarrow> response action" where
  "analyze_sentiment_block clf req calls =
     (case get_json req of
        Inl e \<Rightarrow> (Inl e, calls)
      | Inr data \<Rightarrow>
          if \<not> py_truthy data then (Inr (jsonify (error_body no_text_key) 400), calls)
          else
            (case py_in ''text'' data of
               Inl e \<Rightarrow> (Inl e, calls)
             | Inr present \<Rightarrow>
                 if \<not> present then (Inr (jsonify (error_body no_text_key) 400), calls)
                 else
                   (case py_getitem data ''text'' of
                      Inl e \<Rightarrow> (Inl e, calls)
                    | Inr text \<Rightarrow>
                        (case py_strip text of
                           Inl e \<Rightarrow> (Inl e, calls)
                         | Inr stripped \<Rightarrow>
                             if stripped = [] then (Inr (jsonify (error_body text_empty) 400), calls)
                             else analyze_text clf text calls))))"

definition analyze_sentiment :: "classifier \<Rightarrow> request \<Rightarrow> response action" where
  "analyze_sentiment clf req = try_except (analyze_sentiment_block clf req)"

text \<open>\<^verbatim>\<open>GET /analyze\<close>.\<close>

definition analyze_sentiment_get_block :: "classifier \<Rightarrow> request \<Rightarrow> response action" where
  "analyze_sentiment_get_block clf req calls =
     (let text = args_get (args req) ''text'' '''' in
        if strip text = [] then (Inr (jsonify (error_body no_text_parameter) 400), calls)
        else analyze_text clf (JStr text) calls)"

definition analyze_sentiment_get :: "classifier \<Rightarrow> request \<Rightarrow> response action" where
  "analyze_sentiment_get clf req = try_except (analyze_sentiment_get_block clf req)"

text \<open>\<^verbatim>\<open>GET /health\<close> reads neither the request nor the classifier.\<close>

definition health_check :: "classifier \<Rightarrow> request \<Rightarrow> response action" where
  "health_check clf req calls =
     (Inr (jsonify (JObj [(''status'', JStr ''healthy''),
                          (''service'', JStr ''Sentiment Analysis API''),
                          (''model'', JStr ''cardiffnlp/twitter-roberta-base-sentiment-latest'')]) 200),
      calls)"

section \<open>Auxiliary facts\<close>

lemma append_results_map: "append_results acc rs = acc @ map result_entry rs"
  by (induction rs arbitrary: acc) simp_all

lemma analyze_text_run:
  "analyze_text clf text calls =
     (case clf text of
        Inl e \<Rightarrow> Inl e
      | Inr rs \<Rightarrow> Inr \<lparr>body = JObj [(''input_text'', text),
                                    (''sentiment_results'', JArr (map result_entry rs))],
                       status = 200\<rparr>,
      calls @ [text])"
  by (simp add: analyze_text_def sentiment_analyzer_def format_response_def jsonify_def
        append_results_map split: sum.splits)

lemma try_except_run:
  "try_except block calls =
     (case fst (block calls) of
        Inl e \<Rightarrow> if isinstance_Exception e then Inr (except_handler e) else Inl e
      | Inr r \<Rightarrow> Inr r,
      snd (block calls))"
  by (simp add: try_except_def split: prod.splits sum.splits)

lemma all_dropWhile_iff: "(\<forall>x \<in> set (dropWhile P xs). P x) \<longleftrightarrow> (\<forall>x \<in> set xs. P x)"
  by (induction xs) auto

lemma strip_empty_iff: "strip s = [] \<longleftrightarrow> (\<forall>c \<in> set s. py_isspace c)"
  by (simp add: strip_def dropWhile_eq_Nil_conv all_dropWhile_iff)

lemma round_half_even_near: "\<bar>of_int (round_half_even y) - y\<bar> \<le> 1 / 2"
proof -
  define f where "f = \<lfloor>y\<rfloor>"
  have lo: "of_int f \<le> y" and hi: "y < of_int f + 1"
    unfolding f_def by linarith+
  show ?thesis
    using lo hi unfolding round_half_even_def Let_def f_def [symmetric]
    by (auto simp: abs_le_iff)
qed

lemma py_round_decimal_places: "decimal_places n (py_round x n)"
  by (simp add: decimal_places_def py_round_def)

lemma py_round_near: "\<bar>py_round x n - x\<bar> \<le> 1 / (2 * 10 ^ n)"
proof -
  have p: "(0::rat) < 10 ^ n" by simp
  have "\<bar>py_round x n - x\<bar> = \<bar>of_int (round_half_even (x * 10 ^ n)) - x * 10 ^ n\<bar> / 10 ^ n"
    using p by (simp add: py_round_def field_simps abs_divide flip: diff_divide_distrib)
  also have "\<dots> \<le> (1 / 2) / 10 ^ n"
    by (rule divide_right_mono [OF round_half_even_near]) simp
  finally show ?thesis by simp
qed

lemma map_of_text_present:
  assumes "map_of kvs k = Some v"
  shows "kvs \<noteq> []" and "k \<in> set (map fst kvs)"
  using assms by (auto dest: map_of_SomeD intro: rev_image_eqI)

lemma analyze_sentiment_block_text:
  assumes "get_json req = Inr (JObj kvs)" and "map_of kvs ''text'' = Some v"
  shows "analyze_sentiment_block clf req calls =
     (case py_strip v of
        Inl e \<Rightarrow> (Inl e, calls)
      | Inr stripped \<Rightarrow>
          if stripped = [] then (Inr (jsonify (error_body text_empty) 400), calls)
          else analyze_text clf v calls)"
  using assms map_of_text_present [OF assms(2)]
  by (simp add: analyze_sentiment_block_def)

text \<open>What a run of either analyze route can be.\<close>

lemma analyze_sentiment_block_cases:
  "(\<exists>e. analyze_sentiment_block clf req calls = (Inl e, calls))
   \<or> (\<exists>m. analyze_sentiment_block clf req calls = (Inr \<lparr>body = error_body m, status = 400\<rparr>, calls))
   \<or> (\<exists>t. analyze_sentiment_block clf req calls = analyze_text clf t calls)"
  by (auto simp add: analyze_sentiment_block_def jsonify_def split: sum.splits)

lemma analyze_sentiment_get_block_cases:
  "(\<exists>m. analyze_sentiment_get_block clf req calls = (Inr \<lparr>body = error_body m, status = 400\<rparr>, calls))
   \<or> (\<exists>t. analyze_sentiment_get_block clf req calls = analyze_text clf t calls)"
  by (auto simp add: analyze_sentiment_get_block_def jsonify_def Let_def)

lemma try_except_cases:
  assumes "(\<exists>e. block calls = (Inl e, calls))
   \<or> (\<exists>m. block calls = (Inr \<lparr>body = error_body m, status = 400\<rparr>, calls))
   \<or> (\<exists>t. block calls = analyze_text clf t calls)"
  shows "(\<exists>m st. (st = 400 \<or> st = 500) \<and>
            try_except block calls = (Inr \<lparr>body = error_body m, status = st\<rparr>, calls))
     \<or> (\<exists>e. \<not> isinstance_Exception e \<and> try_except block calls = (Inl e, calls))
     \<or> (\<exists>t e. clf t = Inl e \<and> isinstance_Exception e \<and> try_except block calls =
            (Inr \<lparr>body = error_body (''An error occurred during sentiment analysis: '' @ str_exn e),
                  status = 500\<rparr>,
             calls @ [t]))
     \<or> (\<exists>t e. clf t = Inl e \<and> \<not> isinstance_Exception e \<and>
            try_except block calls = (Inl e, calls @ [t]))
     \<or> (\<exists>t rs. clf t = Inr rs \<and> try_except block calls =
            (Inr \<lparr>body = JObj [(''input_text'', t),
                               (''sentiment_results'', JArr (map result_entry rs))],
                  status = 200\<rparr>,
             calls @ [t]))"
  using assms
proof (elim disjE exE)
  fix e assume blk: "block calls = (Inl e, calls)"
  show ?thesis
  proof (cases "isinstance_Exception e")
    case True
    with blk have "try_except block calls =
        (Inr \<lparr>body = error_body (''An error occurred during sentiment analysis: '' @ str_exn e),
              status = 500\<rparr>, calls)"
      by (simp add: try_except_def except_handler_def jsonify_def)
    then show ?thesis by blast
  next
    case False
    with blk have "try_except block calls = (Inl e, calls)"
      by (simp add: try_except_def)
    with False show ?thesis by blast
  qed
next
  fix m assume "block calls = (Inr \<lparr>body = error_body m, status = 400\<rparr>, calls)"
  then have "try_except block calls = (Inr \<lparr>body = error_body m, status = 400\<rparr>, calls)"
    by (simp add: try_except_def)
  then show ?thesis by blast
next
  fix t assume run: "block calls = analyze_text clf t calls"
  show ?thesis
  proof (cases "clf t")
    case (Inl e)
    show ?thesis
    proof (cases "isinstance_Exception e")
      case True
      with run Inl have "try_except block calls =
            (Inr \<lparr>body = error_body (''An error occurred during sentiment analysis: '' @ str_exn e),
                  status = 500\<rparr>,
             calls @ [t])"
        by (simp add: try_except_def analyze_text_run except_handler_def jsonify_def)
      with Inl True show ?thesis by blast
    next
      case False
      with run Inl have "try_except block calls = (Inl e, calls @ [t])"
        by (simp add: try_except_def analyze_text_run)
      with Inl False show ?thesis by blast
    qed
  next
    case (Inr rs)
    with run have "try_except block calls =
            (Inr \<lparr>body = JObj [(''input_text'', t),
                               (''sentiment_results'', JArr (map result_entry rs))],
                  status = 200\<rparr>,
             calls @ [t])"
      by (simp add: try_except_def analyze_text_run)
    with Inr show ?thesis by blast
  qed
qed

lemma analyze_route_cases:
  assumes "h = analyze_sentiment \<or> h = analyze_sentiment_get"
  shows "(\<exists>m st. (st = 400 \<or> st = 500) \<and>
            h clf req calls = (Inr \<lparr>body = error_body m, status = st\<rparr>, calls))
     \<or> (\<exists>e. \<not> isinstance_Exception e \<and> h clf req calls = (Inl e, calls))
     \<or> (\<exists>t e. clf t = Inl e \<and> isinstance_Exception e \<and> h clf req calls =
            (Inr \<lparr>body = error_body (''An error occurred during sentiment analysis: '' @ str_exn e),
                  status = 500\<rparr>,
             calls @ [t]))
     \<or> (\<exists>t e. clf t = Inl e \<and> \<not> isinstance_Exception e \<and>
            h clf req calls = (Inl e, calls @ [t]))
     \<or> (\<exists>t rs. clf t = Inr rs \<and> h clf req calls =
            (Inr \<lparr>body = JObj [(''input_text'', t),
                               (''sentiment_results'', JArr (map result_entry rs))],
                  status = 200\<rparr>,
             calls @ [t]))"
  using assms
proof
  assume "h = analyze_sentiment"
  then show ?thesis
    unfolding analyze_sentiment_def
    using try_except_cases [of "analyze_sentiment_block clf req" calls clf]
      analyze_sentiment_block_cases [of clf req calls] by simp
next
  assume "h = analyze_sentiment_get"
  then show ?thesis
    unfolding analyze_sentiment_get_def
    using try_except_cases [of "analyze_sentiment_get_block clf req" calls clf]
      analyze_sentiment_get_block_cases [of clf req calls] by simp
qed

section \<open>Properties\<close>

text \<open>
  C8. Every \<^verbatim>\<open>GET /health\<close> request returns status 200 with the body
  \<open>{status: healthy, service: Sentiment Analysis API, model: m}\<close> where \<open>m\<close> is the
  model identifier the pipeline was configured with, whatever the classifier does and
  whatever the request is; the view raises nothing and leaves the record of classifier
  calls as it was.
\<close>

theorem health_check_always_healthy:
  "health_check clf req calls =
     (Inr \<lparr>body = JObj [(''status'', JStr ''healthy''),
                        (''service'', JStr ''Sentiment Analysis API''),
                        (''model'', JStr pipeline_model)],
           status = 200\<rparr>,
      calls)"
  by (simp add: health_check_def jsonify_def pipeline_model_def)

text \<open>
  C1. A \<^verbatim>\<open>POST /analyze\<close> request whose JSON body is an object with a string
  \<open>text\<close> that is not empty after trimming, the classifier returning a list of results:
  the classifier is called once, on the text as it came (untrimmed), and the response has
  status 200 and the body \<open>{input_text: t, sentiment_results: rs'}\<close>, where \<open>rs'\<close>
  has one entry for each result of the classifier, in the same order, with the label as it
  is and the score rounded to 4 digits.
\<close>

theorem analyze_sentiment_success:
  assumes "get_json req = Inr (JObj kvs)"
      and "map_of kvs ''text'' = Some (JStr t)"
      and "strip t \<noteq> []"
      and "clf (JStr t) = Inr rs"
  shows "analyze_sentiment clf req calls =
     (Inr \<lparr>body = JObj [(''input_text'', JStr t),
                        (''sentiment_results'',
                         JArr (map (\<lambda>r. JObj [(''label'', JStr (label r)),
                                               (''score'', JFloat (py_round (score r) 4))]) rs))],
           status = 200\<rparr>,
      calls @ [JStr t])"
proof -
  have "analyze_sentiment_block clf req calls = analyze_text clf (JStr t) calls"
    using assms(3) by (simp add: analyze_sentiment_block_text [OF assms(1,2)])
  then show ?thesis
    using assms(4)
    by (simp add: analyze_sentiment_def try_except_def analyze_text_run result_entry_def)
qed

theorem analyze_sentiment_success_witness:
  "strip '' I love this! '' \<noteq> []
   \<and> analyze_sentiment (\<lambda>_. Inr [\<lparr>label = ''positive'', score = 987654 / 1000000\<rparr>,
                                  \<lparr>label = ''neutral'', score = 3125 / 100000\<rparr>])
        \<lparr>get_json = Inr (JObj [(''text'', JStr '' I love this! '')]), args = []\<rparr> []
     = (Inr \<lparr>body = JObj [(''input_text'', JStr '' I love this! ''),
                          (''sentiment_results'',
                           JArr [JObj [(''label'', JStr ''positive''), (''score'', JFloat (9877 / 10000))],
                                 JObj [(''label'', JStr ''neutral''), (''score'', JFloat (312 / 10000))]])],
             status = 200\<rparr>,
        [JStr '' I love this! ''])"
proof -
  have s: "strip '' I love this! '' \<noteq> []"
    by (simp add: strip_def py_isspace_def)
  have r1: "py_round (987654 / 1000000) 4 = 9877 / 10000" by code_simp
  have r2: "py_round (3125 / 100000) 4 = 312 / 10000" by code_simp
  have "analyze_sentiment (\<lambda>_. Inr [\<lparr>label = ''positive'', score = 987654 / 1000000\<rparr>,
                                      \<lparr>label = ''neutral'', score = 3125 / 100000\<rparr>])
        \<lparr>get_json = Inr (JObj [(''text'', JStr '' I love this! '')]), args = []\<rparr> []
     = (Inr \<lparr>body = JObj [(''input_text'', JStr '' I love this! ''),
                          (''sentiment_results'',
                           JArr (map (\<lambda>r. JObj [(''label'', JStr (label r)),
                                                 (''score'', JFloat (py_round (score r) 4))])
                                   [\<lparr>label = ''positive'', score = 987654 / 1000000\<rparr>,
                                    \<lparr>label = ''neutral'', score = 3125 / 100000\<rparr>]))],
             status = 200\<rparr>,
        [] @ [JStr '' I love this! ''])"
    by (rule analyze_sentiment_success [where kvs = "[(''text'', JStr '' I love this! '')]"])
       (simp_all add: s)
  then show ?thesis
    using s by (simp only: list.map append_Nil result.select_convs r1 r2 simp_thms)
qed

text \<open>
  C2. A \<^verbatim>\<open>POST /analyze\<close> request for which \<^verbatim>\<open>request.get_json()\<close> returns a
  value that is false in Python (\<^verbatim>\<open>None\<close>, \<^verbatim>\<open>False\<close>, zero, an empty string,
  list or dict), or an object, a list or a string in which \<^verbatim>\<open>'text' in data\<close> is
  false, gets status 400 and the body \<open>{error: Please provide text in JSON format with
  "text" key}\<close>; the classifier is not called.
\<close>

theorem analyze_sentiment_no_text_key:
  assumes "get_json req = Inr data"
      and "\<not> py_truthy data \<or> py_in ''text'' data = Inr False"
  shows "analyze_sentiment clf req calls =
     (Inr \<lparr>body = JObj [(''error'', JStr ''Please provide text in JSON format with \"text\" key'')],
           status = 400\<rparr>,
      calls)"
  using assms
  by (auto simp add: analyze_sentiment_def try_except_def analyze_sentiment_block_def
        jsonify_def error_body_def no_text_key_def)

theorem analyze_sentiment_no_text_key_witness:
  "py_in ''text'' (JObj [(''message'', JStr ''hello'')]) = Inr False
   \<and> analyze_sentiment (\<lambda>_. Inr []) \<lparr>get_json = Inr (JObj [(''message'', JStr ''hello'')]), args = []\<rparr> []
     = (Inr \<lparr>body = JObj [(''error'', JStr ''Please provide text in JSON format with \"text\" key'')],
             status = 400\<rparr>,
        [])"
proof -
  have p: "py_in ''text'' (JObj [(''message'', JStr ''hello'')]) = Inr False"
    by simp
  have "analyze_sentiment (\<lambda>_. Inr []) \<lparr>get_json = Inr (JObj [(''message'', JStr ''hello'')]), args = []\<rparr> []
     = (Inr \<lparr>body = JObj [(''error'', JStr ''Please provide text in JSON format with \"text\" key'')],
             status = 400\<rparr>,
        [])"
    by (rule analyze_sentiment_no_text_key [where data = "JObj [(''message'', JStr ''hello'')]"])
       simp_all
  with p show ?thesis by (rule conjI)
qed

text \<open>
  The 400 of C2 does not reach every body without a \<open>text\<close> field. The body \<^verbatim>\<open>5\<close>
  is valid JSON without one: \<^verbatim>\<open>not data\<close> is false, \<^verbatim>\<open>'text' not in 5\<close> raises
  \<^verbatim>\<open>TypeError\<close>, and the \<^verbatim>\<open>except\<close> clause answers 500. A body that is not
  valid JSON makes \<^verbatim>\<open>get_json\<close> raise before the validation runs, and the same
  clause answers 500 with the text of that exception.
\<close>

theorem analyze_sentiment_no_text_key_counterexample:
  "analyze_sentiment (\<lambda>_. Inr [\<lparr>label = ''positive'', score = 9 / 10\<rparr>])
        \<lparr>get_json = Inr (JInt 5), args = []\<rparr> []
     = (Inr \<lparr>body = JObj [(''error'',
                 JStr (''An error occurred during sentiment analysis: ''
                       @ ''argument of type '' @ [CHR 0x27] @ ''int'' @ [CHR 0x27] @ '' is not iterable''))],
             status = 500\<rparr>, [])
   \<and> analyze_sentiment (\<lambda>_. Inr [\<lparr>label = ''positive'', score = 9 / 10\<rparr>])
        \<lparr>get_json = Inl (RaisedError ''400 Bad Request: Failed to decode JSON object''), args = []\<rparr> []
     = (Inr \<lparr>body = JObj [(''error'',
                 JStr (''An error occurred during sentiment analysis: ''
                       @ ''400 Bad Request: Failed to decode JSON object''))],
             status = 500\<rparr>, [])"
  by (simp add: analyze_sentiment_def try_except_def analyze_sentiment_block_def
        except_handler_def jsonify_def error_body_def quoted_def)

text \<open>
  C3. On either analyze route, a request in which the classifier is called (the record of
  calls grows by the argument \<open>t\<close>) and raises an exception \<open>e\<close> that derives from
  \<^verbatim>\<open>Exception\<close> is answered, not raised further: the view returns a response with
  status 500 and the body \<open>{error: An error occurred during sentiment analysis: m}\<close>,
  where \<open>m\<close> is \<^verbatim>\<open>str(e)\<close> as it is.
\<close>

theorem classifier_exception_is_500:
  assumes "h = analyze_sentiment \<or> h = analyze_sentiment_get"
      and "snd (h clf req calls) = calls @ [t]"
      and "clf t = Inl e"
      and "isinstance_Exception e"
  shows "fst (h clf req calls) =
     Inr \<lparr>body = JObj [(''error'', JStr (''An error occurred during sentiment analysis: '' @ str_exn e))],
          status = 500\<rparr>"
  using analyze_route_cases [OF assms(1), of clf req calls] assms(2,3,4)
  by (auto simp add: error_body_def)

theorem classifier_exception_is_500_witness:
  "snd (analyze_sentiment_get (\<lambda>_. Inl (RaisedError ''CUDA out of memory''))
          \<lparr>get_json = Inr JNull, args = [(''text'', ''I love this!'')]\<rparr> []) = [] @ [JStr ''I love this!'']
   \<and> isinstance_Exception (RaisedError ''CUDA out of memory'')
   \<and> fst (analyze_sentiment_get (\<lambda>_. Inl (RaisedError ''CUDA out of memory''))
          \<lparr>get_json = Inr JNull, args = [(''text'', ''I love this!'')]\<rparr> [])
     = Inr \<lparr>body = JObj [(''error'', JStr ''An error occurred during sentiment analysis: CUDA out of memory'')],
            status = 500\<rparr>"
proof -
  have s: "snd (analyze_sentiment_get (\<lambda>_. Inl (RaisedError ''CUDA out of memory''))
          \<lparr>get_json = Inr JNull, args = [(''text'', ''I love this!'')]\<rparr> []) = [] @ [JStr ''I love this!'']"
    by (simp add: analyze_sentiment_get_def try_except_run analyze_sentiment_get_block_def
          args_get_def strip_def py_isspace_def analyze_text_run)
  show ?thesis
    using s classifier_exception_is_500 [of analyze_sentiment_get
        "\<lambda>_. Inl (RaisedError ''CUDA out of memory'')"
        "\<lparr>get_json = Inr JNull, args = [(''text'', ''I love this!'')]\<rparr>" "[]" "JStr ''I love this!''"
        "RaisedError ''CUDA out of memory''"]
    by simp
qed

text \<open>
  The condition of C3 on the exception is needed. The clause of both routes is
  \<^verbatim>\<open>except Exception\<close>: a \<^verbatim>\<open>KeyboardInterrupt\<close> raised while the classifier runs
  (its text is the empty string) does not derive from \<^verbatim>\<open>Exception\<close>, is not
  handled, and leaves the view as an exception; no response with status 500 is returned,
  on either route.
\<close>

theorem classifier_exception_is_500_counterexample:
  "analyze_sentiment (\<lambda>_. Inl (BaseRaised ''''))
        \<lparr>get_json = Inr (JObj [(''text'', JStr ''I love this!'')]), args = []\<rparr> []
     = (Inl (BaseRaised ''''), [JStr ''I love this!''])
   \<and> analyze_sentiment_get (\<lambda>_. Inl (BaseRaised ''''))
        \<lparr>get_json = Inr JNull, args = [(''text'', ''I love this!'')]\<rparr> []
     = (Inl (BaseRaised ''''), [JStr ''I love this!''])"
  by (simp add: analyze_sentiment_def analyze_sentiment_get_def try_except_def
        analyze_sentiment_block_def analyze_sentiment_get_block_def args_get_def
        strip_def py_isspace_def analyze_text_run)

text \<open>
  C4. A text that is empty after trimming is rejected with status 400 and the message of
  the route. For \<^verbatim>\<open>POST /analyze\<close> the text is the string under \<open>text\<close> in the body
  and the message is \<open>Text cannot be empty\<close>; for \<^verbatim>\<open>GET /analyze\<close> the text is the
  query parameter \<open>text\<close>, the empty string when the parameter is absent, and the message
  asks for the query parameter. In both cases the classifier is not called.
\<close>

theorem empty_text_is_400:
  assumes "get_json rp = Inr (JObj kvs)"
      and "map_of kvs ''text'' = Some (JStr t)"
      and "strip t = []"
      and "strip (args_get (args rg) ''text'' '''') = []"
  shows "analyze_sentiment clf rp calls =
           (Inr \<lparr>body = JObj [(''error'', JStr ''Text cannot be empty'')], status = 400\<rparr>, calls)
       \<and> analyze_sentiment_get clf rg calls =
           (Inr \<lparr>body = JObj [(''error'', JStr ''Please provide text using the \"text\" query parameter'')],
                 status = 400\<rparr>, calls)"
proof
  have "analyze_sentiment_block clf rp calls = (Inr (jsonify (error_body text_empty) 400), calls)"
    using assms(3) by (simp add: analyze_sentiment_block_text [OF assms(1,2)])
  then show "analyze_sentiment clf rp calls =
           (Inr \<lparr>body = JObj [(''error'', JStr ''Text cannot be empty'')], status = 400\<rparr>, calls)"
    by (simp add: analyze_sentiment_def try_except_def jsonify_def error_body_def text_empty_def)
next
  show "analyze_sentiment_get clf rg calls =
           (Inr \<lparr>body = JObj [(''error'', JStr ''Please provide text using the \"text\" query parameter'')],
                 status = 400\<rparr>, calls)"
    using assms(4)
    by (simp add: analyze_sentiment_get_def try_except_def analyze_sentiment_get_block_def
          jsonify_def error_body_def no_text_parameter_def)
qed

theorem empty_text_is_400_witness:
  "strip [CHR '' '', CHR 0x09, CHR 0x0A] = []
   \<and> strip (args_get [] ''text'' '''') = []
   \<and> analyze_sentiment (\<lambda>_. Inr [\<lparr>label = ''neutral'', score = 1 / 2\<rparr>])
        \<lparr>get_json = Inr (JObj [(''text'', JStr [CHR '' '', CHR 0x09, CHR 0x0A])]), args = []\<rparr> []
       = (Inr \<lparr>body = JObj [(''error'', JStr ''Text cannot be empty'')], status = 400\<rparr>, [])
   \<and> analyze_sentiment_get (\<lambda>_. Inr [\<lparr>label = ''neutral'', score = 1 / 2\<rparr>])
        \<lparr>get_json = Inr JNull, args = []\<rparr> []
       = (Inr \<lparr>body = JObj [(''error'', JStr ''Please provide text using the \"text\" query parameter'')],
               status = 400\<rparr>, [])"
proof -
  have s1: "strip [CHR '' '', CHR 0x09, CHR 0x0A] = []"
    by (simp add: strip_def py_isspace_def)
  have s2: "strip (args_get [] ''text'' '''') = []"
    by (simp add: strip_def args_get_def)
  show ?thesis
    using s1 s2 empty_text_is_400
      [of "\<lparr>get_json = Inr (JObj [(''text'', JStr [CHR '' '', CHR 0x09, CHR 0x0A])]), args = []\<rparr>"
          "[(''text'', JStr [CHR '' '', CHR 0x09, CHR 0x0A])]" "[CHR '' '', CHR 0x09, CHR 0x0A]"
          "\<lparr>get_json = Inr JNull, args = []\<rparr>"
          "\<lambda>_. Inr [\<lparr>label = ''neutral'', score = 1 / 2\<rparr>]" "[]"]
    by simp
qed


text \<open>
  C5. On either analyze route, a request answered with status 400 (a missing field or a
  text empty after trimming) leaves the record of classifier calls as it was: the
  classifier is not called while the request is handled.
\<close>

theorem validation_error_never_calls_classifier:
  assumes "h = analyze_sentiment \<or> h = analyze_sentiment_get"
      and "fst (h clf req calls) = Inr r"
      and "status r = 400"
  shows "snd (h clf req calls) = calls"
  using analyze_route_cases [OF assms(1), of clf req calls] assms(2,3)
  by auto

theorem validation_error_never_calls_classifier_witness:
  "fst (analyze_sentiment (\<lambda>_. Inr [\<lparr>label = ''neutral'', score = 1 / 2\<rparr>])
          \<lparr>get_json = Inr (JObj [(''text'', JStr ''  '')]), args = []\<rparr> [JStr ''earlier''])
     = Inr \<lparr>body = JObj [(''error'', JStr ''Text cannot be empty'')], status = 400\<rparr>
   \<and> status \<lparr>body = JObj [(''error'', JStr ''Text cannot be empty'')], status = 400\<rparr> = 400
   \<and> snd (analyze_sentiment (\<lambda>_. Inr [\<lparr>label = ''neutral'', score = 1 / 2\<rparr>])
          \<lparr>get_json = Inr (JObj [(''text'', JStr ''  '')]), args = []\<rparr> [JStr ''earlier''])
     = [JStr ''earlier'']"
proof -
  have f: "fst (analyze_sentiment (\<lambda>_. Inr [\<lparr>label = ''neutral'', score = 1 / 2\<rparr>])
          \<lparr>get_json = Inr (JObj [(''text'', JStr ''  '')]), args = []\<rparr> [JStr ''earlier''])
     = Inr \<lparr>body = JObj [(''error'', JStr ''Text cannot be empty'')], status = 400\<rparr>"
    by (simp add: analyze_sentiment_def try_except_run analyze_sentiment_block_def strip_def
          py_isspace_def jsonify_def error_body_def text_empty_def)
  have "snd (analyze_sentiment (\<lambda>_. Inr [\<lparr>label = ''neutral'', score = 1 / 2\<rparr>])
          \<lparr>get_json = Inr (JObj [(''text'', JStr ''  '')]), args = []\<rparr> [JStr ''earlier''])
     = [JStr ''earlier'']"
    by (rule validation_error_never_calls_classifier [where h = analyze_sentiment, OF _ f]) simp_all
  with f show ?thesis by simp
qed


text \<open>
  C6. For a text \<open>t\<close> that passes validation and any classifier, returning or raising,
  \<^verbatim>\<open>GET /analyze\<close> with \<open>t\<close> as the query parameter and \<^verbatim>\<open>POST /analyze\<close> with
  \<open>t\<close> under \<open>text\<close> in the JSON body give the same response (the same echo of the
  input and the same results on success, the same 500 on an exception) and call the
  classifier in the same way.
\<close>

theorem get_and_post_agree_past_validation:
  assumes "map_of (args rg) ''text'' = Some t"
      and "get_json rp = Inr (JObj kvs)"
      and "map_of kvs ''text'' = Some (JStr t)"
      and "strip t \<noteq> []"
  shows "analyze_sentiment_get clf rg calls = analyze_sentiment clf rp calls"
proof -
  have "analyze_sentiment_block clf rp calls = analyze_text clf (JStr t) calls"
    using assms(4) by (simp add: analyze_sentiment_block_text [OF assms(2,3)])
  moreover have "analyze_sentiment_get_block clf rg calls = analyze_text clf (JStr t) calls"
    using assms(1,4) by (simp add: analyze_sentiment_get_block_def args_get_def)
  ultimately show ?thesis
    by (simp add: analyze_sentiment_def analyze_sentiment_get_def try_except_def)
qed

theorem get_and_post_agree_past_validation_witness:
  "strip ''I love this!'' \<noteq> []
   \<and> analyze_sentiment_get (\<lambda>x. if x = JStr ''I love this!'' then Inr [\<lparr>label = ''positive'', score = 1\<rparr>]
                                  else Inl (RaisedError ''unexpected''))
        \<lparr>get_json = Inl (RaisedError ''415 Unsupported Media Type''), args = [(''text'', ''I love this!'')]\<rparr> []
     = analyze_sentiment (\<lambda>x. if x = JStr ''I love this!'' then Inr [\<lparr>label = ''positive'', score = 1\<rparr>]
                                else Inl (RaisedError ''unexpected''))
        \<lparr>get_json = Inr (JObj [(''text'', JStr ''I love this!'')]), args = []\<rparr> []"
proof -
  have s: "strip ''I love this!'' \<noteq> []"
    by (simp add: strip_def py_isspace_def)
  have "analyze_sentiment_get (\<lambda>x. if x = JStr ''I love this!'' then Inr [\<lparr>label = ''positive'', score = 1\<rparr>]
                                  else Inl (RaisedError ''unexpected''))
        \<lparr>get_json = Inl (RaisedError ''415 Unsupported Media Type''), args = [(''text'', ''I love this!'')]\<rparr> []
     = analyze_sentiment (\<lambda>x. if x = JStr ''I love this!'' then Inr [\<lparr>label = ''positive'', score = 1\<rparr>]
                                else Inl (RaisedError ''unexpected''))
        \<lparr>get_json = Inr (JObj [(''text'', JStr ''I love this!'')]), args = []\<rparr> []"
    by (rule get_and_post_agree_past_validation
          [where t = "''I love this!''" and kvs = "[(''text'', JStr ''I love this!'')]"])
       (simp_all add: s)
  with s show ?thesis by (rule conjI)
qed


text \<open>
  C7. Every response of status 400 or 500 that either analyze route returns has as body a
  JSON object with the single field \<open>error\<close>, whose value is a string.
\<close>

theorem error_responses_have_one_error_field:
  assumes "h = analyze_sentiment \<or> h = analyze_sentiment_get"
      and "fst (h clf req calls) = Inr r"
      and "status r = 400 \<or> status r = 500"
  shows "\<exists>m. body r = JObj [(''error'', JStr m)]"
  using analyze_route_cases [OF assms(1), of clf req calls] assms(2,3)
  by (auto simp add: error_body_def)

theorem error_responses_have_one_error_field_witness:
  "fst (analyze_sentiment (\<lambda>_. Inr []) \<lparr>get_json = Inr (JArr [JStr ''text'']), args = []\<rparr> [])
     = Inr \<lparr>body = JObj [(''error'', JStr ''An error occurred during sentiment analysis: list indices must be integers or slices, not str'')],
            status = 500\<rparr>
   \<and> (\<exists>m. body \<lparr>body = JObj [(''error'', JStr ''An error occurred during sentiment analysis: list indices must be integers or slices, not str'')],
            status = 500\<rparr> = JObj [(''error'', JStr m)])"
proof -
  have f: "fst (analyze_sentiment (\<lambda>_. Inr []) \<lparr>get_json = Inr (JArr [JStr ''text'']), args = []\<rparr> [])
     = Inr \<lparr>body = JObj [(''error'', JStr ''An error occurred during sentiment analysis: list indices must be integers or slices, not str'')],
            status = 500\<rparr>"
    by (simp add: analyze_sentiment_def try_except_run analyze_sentiment_block_def
          except_handler_def jsonify_def error_body_def)
  have "\<exists>m. body \<lparr>body = JObj [(''error'', JStr ''An error occurred during sentiment analysis: list indices must be integers or slices, not str'')],
            status = 500\<rparr> = JObj [(''error'', JStr m)]"
    by (rule error_responses_have_one_error_field [where h = analyze_sentiment, OF _ f]) simp_all
  with f show ?thesis by (rule conjI)
qed

text \<open>
  C9. For every string \<open>t\<close> that is not empty after trimming, \<^verbatim>\<open>POST /analyze\<close> with
  the body \<open>{text: t}\<close>, the classifier returning a non-empty list of results, returns
  status 200, and the results of the response are a non-empty list with one entry for each
  result of the classifier, whose score has at most 4 digits after the decimal point and
  lies within half a unit of the fourth digit of the classifier's score.
\<close>

theorem analyze_sentiment_scores_rounded:
  assumes "get_json req = Inr (JObj [(''text'', JStr t)])"
      and "strip t \<noteq> []"
      and "clf (JStr t) = Inr rs"
      and "rs \<noteq> []"
  shows "\<exists>entries.
           fst (analyze_sentiment clf req calls) =
             Inr \<lparr>body = JObj [(''input_text'', JStr t), (''sentiment_results'', JArr entries)],
                  status = 200\<rparr>
         \<and> entries \<noteq> []
         \<and> length entries = length rs
         \<and> (\<forall>i < length rs. \<exists>q.
               entries ! i = JObj [(''label'', JStr (label (rs ! i))), (''score'', JFloat q)]
             \<and> decimal_places 4 q
             \<and> \<bar>q - score (rs ! i)\<bar> \<le> 1 / 20000)"
proof -
  have "analyze_sentiment_block clf req calls = analyze_text clf (JStr t) calls"
    using assms(2) by (simp add: analyze_sentiment_block_text [OF assms(1)])
  then have run: "fst (analyze_sentiment clf req calls) =
             Inr \<lparr>body = JObj [(''input_text'', JStr t),
                               (''sentiment_results'', JArr (map result_entry rs))],
                  status = 200\<rparr>"
    using assms(3) by (simp add: analyze_sentiment_def try_except_def analyze_text_run)
  have near: "\<bar>py_round x 4 - x\<bar> \<le> 1 / 20000" for x
    using py_round_near [of x 4] by simp
  have "\<forall>i < length rs. \<exists>q.
               map result_entry rs ! i = JObj [(''label'', JStr (label (rs ! i))), (''score'', JFloat q)]
             \<and> decimal_places 4 q
             \<and> \<bar>q - score (rs ! i)\<bar> \<le> 1 / 20000"
    using near by (simp add: result_entry_def py_round_decimal_places)
  with run assms(4) show ?thesis
    by (intro exI [of _ "map result_entry rs"]) simp
qed

theorem analyze_sentiment_scores_rounded_witness:
  "strip ''I love this!'' \<noteq> []
   \<and> (\<exists>entries.
           fst (analyze_sentiment (\<lambda>_. Inr [\<lparr>label = ''positive'', score = 987654 / 1000000\<rparr>])
                  \<lparr>get_json = Inr (JObj [(''text'', JStr ''I love this!'')]), args = []\<rparr> []) =
             Inr \<lparr>body = JObj [(''input_text'', JStr ''I love this!''), (''sentiment_results'', JArr entries)],
                  status = 200\<rparr>
         \<and> entries \<noteq> []
         \<and> length entries = 1
         \<and> (\<exists>q. entries ! 0 = JObj [(''label'', JStr ''positive''), (''score'', JFloat q)]
             \<and> decimal_places 4 q
             \<and> \<bar>q - 987654 / 1000000\<bar> \<le> 1 / 20000))"
proof -
  have s: "strip ''I love this!'' \<noteq> []"
    by (simp add: strip_def py_isspace_def)
  show ?thesis
    using s analyze_sentiment_scores_rounded
      [of "\<lparr>get_json = Inr (JObj [(''text'', JStr ''I love this!'')]), args = []\<rparr>" "''I love this!''"
          "\<lambda>_. Inr [\<lparr>label = ''positive'', score = 987654 / 1000000\<rparr>]"
          "[\<lparr>label = ''positive'', score = 987654 / 1000000\<rparr>]" "[]"]
    by simp
qed


text \<open>
  The two conditions of C9 are needed. A string of whitespace is not empty, and the route
  rejects it with status 400 whatever the classifier would return; and the route adds no
  entry of its own, so the results are empty when the classifier returns the empty list.
\<close>

theorem analyze_sentiment_nonempty_text_counterexample:
  "analyze_sentiment (\<lambda>_. Inr [\<lparr>label = ''neutral'', score = 1 / 2\<rparr>])
        \<lparr>get_json = Inr (JObj [(''text'', JStr '' '')]), args = []\<rparr> []
     = (Inr \<lparr>body = JObj [(''error'', JStr ''Text cannot be empty'')], status = 400\<rparr>, [])
   \<and> analyze_sentiment (\<lambda>_. Inr [])
        \<lparr>get_json = Inr (JObj [(''text'', JStr ''hello'')]), args = []\<rparr> []
     = (Inr \<lparr>body = JObj [(''input_text'', JStr ''hello''), (''sentiment_results'', JArr [])],
             status = 200\<rparr>, [JStr ''hello''])"
  by (simp add: analyze_sentiment_def try_except_def analyze_sentiment_block_def strip_def
        py_isspace_def jsonify_def error_body_def text_empty_def analyze_text_run)


text \<open>
  C10. A \<^verbatim>\<open>POST /analyze\<close> request whose JSON body is an object with a \<open>text\<close> key
  whose value is not a string (a number, a boolean, \<^verbatim>\<open>None\<close>, a list, an object) is
  answered with status 500 and the wrapped exception, not with a 400: \<^verbatim>\<open>text.strip()\<close>
  raises \<^verbatim>\<open>AttributeError\<close> on such a value. The classifier is not called.
\<close>

theorem analyze_sentiment_text_not_a_string:
  assumes "get_json req = Inr (JObj kvs)"
      and "map_of kvs ''text'' = Some v"
      and "py_type_name v \<noteq> ''str''"
  shows "analyze_sentiment clf req calls =
     (Inr \<lparr>body = JObj [(''error'',
                JStr (''An error occurred during sentiment analysis: ''
                      @ [CHR 0x27] @ py_type_name v @ [CHR 0x27] @ '' object has no attribute ''
                      @ [CHR 0x27] @ ''strip'' @ [CHR 0x27]))],
           status = 500\<rparr>,
      calls)"
proof -
  have "py_strip v = Inl (AttributeError (quoted (py_type_name v) @ '' object has no attribute '' @ quoted ''strip''))"
    using assms(3) by (cases v) simp_all
  then have "analyze_sentiment_block clf req calls =
      (Inl (AttributeError (quoted (py_type_name v) @ '' object has no attribute '' @ quoted ''strip'')), calls)"
    by (simp add: analyze_sentiment_block_text [OF assms(1,2)])
  then show ?thesis
    by (simp add: analyze_sentiment_def try_except_def except_handler_def jsonify_def
          error_body_def quoted_def)
qed

theorem analyze_sentiment_text_not_a_string_witness:
  "py_type_name (JInt 42) \<noteq> ''str''
   \<and> analyze_sentiment (\<lambda>_. Inr [\<lparr>label = ''neutral'', score = 1 / 2\<rparr>])
        \<lparr>get_json = Inr (JObj [(''text'', JInt 42)]), args = []\<rparr> []
     = (Inr \<lparr>body = JObj [(''error'',
                JStr (''An error occurred during sentiment analysis: ''
                      @ [CHR 0x27] @ ''int'' @ [CHR 0x27] @ '' object has no attribute ''
                      @ [CHR 0x27] @ ''strip'' @ [CHR 0x27]))],
             status = 500\<rparr>,
        [])"
  using analyze_sentiment_text_not_a_string
      [of "\<lparr>get_json = Inr (JObj [(''text'', JInt 42)]), args = []\<rparr>" "[(''text'', JInt 42)]" "JInt 42"
          "\<lambda>_. Inr [\<lparr>label = ''neutral'', score = 1 / 2\<rparr>]" "[]"]
  by simp

end
